theory Spec2Isabelle
  imports Main "HOL-Library.List_Lexorder" "HOL-Library.Char_ord"
begin

section \<open>Errors\<close>

text \<open>
  A Go \<^verbatim>\<open>error\<close> is a value of one datatype. \<^verbatim>\<open>ErrorString\<close> is what
  \<^verbatim>\<open>errors.New\<close> and \<^verbatim>\<open>fmt.Errorf\<close> build, \<^verbatim>\<open>HTTPError\<close> is the API's error
  struct (status, error code, message, wrapped internal error), \<^verbatim>\<open>AuthHookErr\<close> is a
  \<^verbatim>\<open>hooks.AuthHookError\<close> (HTTP code, message) used as an error, and the remaining
  constructors are the errors of the storage layer and of the lookups in the store.
\<close>

datatype ErrorCode =
  NoErrorCode | ErrorHookTimeout | ErrorCodeValidationFailed | ErrorCodeNoAuthorization

datatype error =
    ErrorString string
  | HTTPError (HTTPStatus: int) (HTTPError_Code: ErrorCode) (HTTPError_Message: string)
      (InternalError: "error option")
  | AuthHookErr int string
  | NotFoundError string
  | StorageError string

text \<open>The method \<^verbatim>\<open>Error()\<close> of an error: its message.\<close>

fun Error :: "error \<Rightarrow> string" where
  "Error (ErrorString msg) = msg"
| "Error (HTTPError status code msg internal) = msg"
| "Error (AuthHookErr code msg) = msg"
| "Error (NotFoundError msg) = msg"
| "Error (StorageError msg) = msg"

definition StatusBadRequest :: int where "StatusBadRequest = 400"
definition StatusUnauthorized :: int where "StatusUnauthorized = 401"
definition StatusInternalServerError :: int where "StatusInternalServerError = 500"
definition StatusGatewayTimeout :: int where "StatusGatewayTimeout = 504"

text \<open>
  Modelled from the spec: the constructors of API errors (\<^verbatim>\<open>httpError\<close>,
  \<^verbatim>\<open>badRequestError\<close>, \<^verbatim>\<open>unauthorizedError\<close>, \<^verbatim>\<open>notFoundError\<close>,
  \<^verbatim>\<open>internalServerError\<close>, \<^verbatim>\<open>gatewayTimeoutError\<close>, \<^verbatim>\<open>WithInternalError\<close>) are
  defined elsewhere in the repository. Each builds an \<^verbatim>\<open>HTTPError\<close> of the error kind
  its name says (BadRequest, Unauthorized, NotFound, Internal, GatewayTimeout), with the
  HTTP status of that kind. Callers that pass no error code are given \<open>NoErrorCode\<close>.
\<close>

definition httpError :: "int \<Rightarrow> ErrorCode \<Rightarrow> string \<Rightarrow> error" where
  "httpError status code msg = HTTPError status code msg None"

definition badRequestError :: "ErrorCode \<Rightarrow> string \<Rightarrow> error" where
  "badRequestError code msg = httpError StatusBadRequest code msg"

definition unauthorizedError :: "string \<Rightarrow> error" where
  "unauthorizedError msg = httpError StatusUnauthorized NoErrorCode msg"

definition notFoundError :: "string \<Rightarrow> error" where
  "notFoundError msg = httpError 404 NoErrorCode msg"

definition internalServerError :: "string \<Rightarrow> error" where
  "internalServerError msg = httpError StatusInternalServerError NoErrorCode msg"

definition gatewayTimeoutError :: "ErrorCode \<Rightarrow> string \<Rightarrow> error" where
  "gatewayTimeoutError code msg = httpError StatusGatewayTimeout code msg"

fun WithInternalError :: "error \<Rightarrow> error \<Rightarrow> error" where
  "WithInternalError (HTTPError status code msg _) err = HTTPError status code msg (Some err)"
| "WithInternalError e err = e"

section \<open>Time\<close>

text \<open>
  Go's \<^verbatim>\<open>time.Time\<close> and \<^verbatim>\<open>time.Duration\<close> come from the standard library.
  An instant is the number of nanoseconds since the Unix epoch and a duration a number of
  nanoseconds, both on the unbounded integer line: the range limits of the library's
  encoding are left out.
\<close>

type_synonym Time = int
type_synonym Duration = int

definition Second :: Duration where
  "Second = 1000000000"

text \<open>
  A \<^verbatim>\<open>time.Duration\<close> is an \<^verbatim>\<open>int64\<close>, and the product of two durations is an
  \<^verbatim>\<open>int64\<close> product: it wraps around. \<open>int64 x\<close> is the value an \<^verbatim>\<open>int64\<close> holds
  for the mathematical result \<open>x\<close>, that is \<open>x\<close> modulo \<open>2^64\<close> read as a signed number.
\<close>

definition int64 :: "int \<Rightarrow> int" where
  "int64 x = (x + 2 ^ 63) mod 2 ^ 64 - 2 ^ 63"

definition Duration_Mul :: "Duration \<Rightarrow> Duration \<Rightarrow> Duration" where
  "Duration_Mul a b = int64 (a * b)"

definition Time_Add :: "Time \<Rightarrow> Duration \<Rightarrow> Time" where
  "Time_Add t d = t + d"

definition Time_After :: "Time \<Rightarrow> Time \<Rightarrow> bool" where
  "Time_After t u = (u < t)"

definition Time_Unix :: "Time \<Rightarrow> int" where
  "Time_Unix t = t div 1000000000"

section \<open>Sessions: assurance level and method references\<close>

type_synonym uuid = string

datatype AuthenticatorAssuranceLevel = AAL1 | AAL2 | AAL3

fun AAL_String :: "AuthenticatorAssuranceLevel \<Rightarrow> string" where
  "AAL_String AAL1 = ''aal1''"
| "AAL_String AAL2 = ''aal2''"
| "AAL_String AAL3 = ''aal3''"

record AMREntry =
  Method :: string
  Timestamp :: int

text \<open>
  The row type \<^verbatim>\<open>AMRClaim\<close> is declared elsewhere in the repository; the two fields that
  \<^verbatim>\<open>CalculateAALAndAMR\<close> reads are kept.
\<close>

record AMRClaim =
  AuthenticationMethod :: string
  AMRClaim_UpdatedAt :: Time

record Session =
  Session_ID :: uuid
  Session_UserID :: uuid
  Session_FactorID :: "uuid option"
  AMRClaims :: "AMRClaim list"
  AAL :: string

text \<open>The entry that the loop appends for a claim.\<close>

definition amr_entry :: "AMRClaim \<Rightarrow> AMREntry" where
  "amr_entry claim =
     \<lparr>Method = AuthenticationMethod claim, Timestamp = Time_Unix (AMRClaim_UpdatedAt claim)\<rparr>"

text \<open>
  The body of the \<^verbatim>\<open>for _, claim := range s.AMRClaims\<close> loop, on the pair of the two
  named results. \<open>totp\<close> stands for \<^verbatim>\<open>TOTPSignIn.String()\<close>, a constant declared
  elsewhere in the repository.
\<close>

fun CalculateAALAndAMR_loop ::
  "string \<Rightarrow> AMRClaim list \<Rightarrow> string \<times> AMREntry list \<Rightarrow> string \<times> AMREntry list" where
  "CalculateAALAndAMR_loop totp [] (aal, amr) = (aal, amr)"
| "CalculateAALAndAMR_loop totp (claim # rest) (aal, amr) =
     CalculateAALAndAMR_loop totp rest
       (if AuthenticationMethod claim = totp then AAL_String AAL2 else aal,
        amr @ [amr_entry claim])"

definition CalculateAALAndAMR :: "string \<Rightarrow> Session \<Rightarrow> string \<times> AMREntry list" where
  "CalculateAALAndAMR totp s = CalculateAALAndAMR_loop totp (AMRClaims s) (AAL_String AAL1, [])"

section \<open>Flow state\<close>

definition InvalidCodeChallengeError :: string where
  "InvalidCodeChallengeError = ''code challenge does not match previously saved code verifier''"

definition InvalidCodeMethodError :: string where
  "InvalidCodeMethodError = ''code challenge method not supported''"

record FlowState =
  FlowState_ID :: uuid
  FlowState_UserID :: "uuid option"
  AuthCode :: string
  FlowState_AuthenticationMethod :: string
  CodeChallenge :: string
  CodeChallengeMethod :: string
  ProviderType :: string
  ProviderAccessToken :: string
  ProviderRefreshToken :: string
  FlowState_CreatedAt :: Time
  FlowState_UpdatedAt :: Time

datatype CodeChallengeMethod = SHA256 | Plain

fun CodeChallengeMethod_String :: "CodeChallengeMethod \<Rightarrow> string" where
  "CodeChallengeMethod_String SHA256 = ''s256''"
| "CodeChallengeMethod_String Plain = ''plain''"

text \<open>
  \<^verbatim>\<open>subtle.ConstantTimeCompare\<close> of the standard library, by its documented result: 1 when
  the two byte slices have equal contents, 0 otherwise. A Go string is a sequence of bytes
  and so is a \<open>string\<close> here; the conversion \<^verbatim>\<open>[]byte(s)\<close> changes nothing. Running
  time is not part of the model.
\<close>

definition ConstantTimeCompare :: "string \<Rightarrow> string \<Rightarrow> int" where
  "ConstantTimeCompare x y = (if x = y then 1 else 0)"

text \<open>
  \<^verbatim>\<open>VerifyPKCE\<close>. The digest \<^verbatim>\<open>sha256.Sum256\<close> and the encoder
  \<^verbatim>\<open>base64.RawURLEncoding.EncodeToString\<close> belong to the standard library and are the
  parameters \<open>Sum256\<close> and \<open>EncodeToString\<close>; the array \<^verbatim>\<open>[32]byte\<close> that the digest
  returns is a list of bytes. The result is the returned error, \<open>None\<close> for \<^verbatim>\<open>nil\<close>.
\<close>

definition VerifyPKCE ::
  "(string \<Rightarrow> string) \<Rightarrow> (string \<Rightarrow> string) \<Rightarrow> FlowState \<Rightarrow> string \<Rightarrow> error option" where
  "VerifyPKCE Sum256 EncodeToString f codeVerifier =
     (if CodeChallengeMethod f = CodeChallengeMethod_String SHA256 then
        (let hashedCodeVerifier = Sum256 codeVerifier;
             encodedCodeVerifier = EncodeToString hashedCodeVerifier
         in if ConstantTimeCompare (CodeChallenge f) encodedCodeVerifier \<noteq> 1
            then Some (ErrorString InvalidCodeChallengeError)
            else None)
      else if CodeChallengeMethod f = CodeChallengeMethod_String Plain then
        (if ConstantTimeCompare (CodeChallenge f) codeVerifier \<noteq> 1
         then Some (ErrorString InvalidCodeChallengeError)
         else None)
      else Some (ErrorString InvalidCodeMethodError))"

text \<open>
  \<^verbatim>\<open>IsExpired\<close>. The reading of the clock, \<^verbatim>\<open>time.Now()\<close>, is the parameter \<open>now\<close>.
\<close>

definition IsExpired :: "Time \<Rightarrow> FlowState \<Rightarrow> Duration \<Rightarrow> bool" where
  "IsExpired now f expiryDuration =
     Time_After (FlowState_CreatedAt f) (Time_Add now expiryDuration)"

section \<open>HTTP hooks: reading the response body\<close>

text \<open>
  A response body is an \<^verbatim>\<open>io.Reader\<close>. The reader holds the bytes it has not delivered
  yet (\<open>pending\<close>) and the error that ends the stream (\<open>ending\<close>, \<^verbatim>\<open>io.EOF\<close> for a body
  that arrives whole). The contract of \<^verbatim>\<open>Read\<close> lets a reader report the end of the stream
  either together with the last bytes or by a later call that returns no bytes; the flag
  \<open>endWithData\<close> says which of the two this reader does. A read returns as many bytes as
  the buffer holds when that many are pending.
\<close>

definition EOF :: error where
  "EOF = ErrorString ''EOF''"

record Body =
  pending :: string
  ending :: error
  endWithData :: bool

definition Body_Read :: "nat \<Rightarrow> Body \<Rightarrow> (string \<times> error option) \<times> Body" where
  "Body_Read k b =
     (if pending b = [] then (([], Some (ending b)), b)
      else (let p = take k (pending b); rest = drop k (pending b)
            in ((p, if rest = [] \<and> endWithData b then Some (ending b) else None),
                b\<lparr>pending := rest\<rparr>)))"

text \<open>
  \<^verbatim>\<open>io.LimitedReader\<close> and its \<^verbatim>\<open>Read\<close>: nothing is read once \<open>N \<le> 0\<close>, the buffer is
  cut to \<open>N\<close> bytes, and \<open>N\<close> goes down by the number of bytes read.
\<close>

record LimitedReader =
  R :: Body
  N :: int

definition LimitedReader_Read ::
  "nat \<Rightarrow> LimitedReader \<Rightarrow> (string \<times> error option) \<times> LimitedReader" where
  "LimitedReader_Read k l =
     (if N l \<le> 0 then (([], Some EOF), l)
      else (let k' = (if int k > N l then nat (N l) else k);
                res = Body_Read k' (R l)
            in (fst res, \<lparr>R = snd res, N = N l - int (length (fst (fst res)))\<rparr>)))"

text \<open>
  \<^verbatim>\<open>io.ReadAll\<close>: read into the free part of the buffer until a read reports an error,
  keep the bytes of every read, and turn \<^verbatim>\<open>io.EOF\<close> into \<^verbatim>\<open>nil\<close>. The buffer starts
  with room for 512 bytes; every read asks for 512 bytes here, the sizes the runtime
  picks when it grows the buffer being its own business.
\<close>

function ReadAll_loop ::
  "LimitedReader \<Rightarrow> string \<Rightarrow> (string \<times> error option) \<times> LimitedReader" where
  "ReadAll_loop r b =
     (let res = LimitedReader_Read 512 r; n = fst (fst res); err = snd (fst res); r' = snd res
      in case err of
           Some e \<Rightarrow> ((b @ n, if e = EOF then None else Some e), r')
         | None \<Rightarrow> ReadAll_loop r' (b @ n))"
  by pat_completeness auto
termination
  apply (relation "measure (\<lambda>(r, b). length (pending (R r)))")
   apply simp
  apply (auto simp: LimitedReader_Read_def Body_Read_def Let_def split: if_splits)
  done

declare ReadAll_loop.simps [simp del]

definition ReadAll :: "LimitedReader \<Rightarrow> (string \<times> error option) \<times> LimitedReader" where
  "ReadAll r = ReadAll_loop r []"

definition limit :: int where
  "limit = 20 * 1024"

text \<open>
  \<^verbatim>\<open>readBodyWithLimit\<close>. The result is the pair the Go function returns: the bytes
  (\<open>None\<close> for a \<^verbatim>\<open>nil\<close> slice) and the error (\<open>None\<close> for \<^verbatim>\<open>nil\<close>). The limited reader
  shares the body with the response, so the extra read of one byte goes on where
  \<^verbatim>\<open>io.ReadAll\<close> stopped.
\<close>

definition readBodyWithLimit :: "Body \<Rightarrow> string option \<times> error option" where
  "readBodyWithLimit rsp_Body =
     (let res = ReadAll \<lparr>R = rsp_Body, N = limit\<rparr>;
          body = fst (fst res); err = snd (fst res); limitedReader = snd res
      in case err of
           Some e \<Rightarrow> (None, Some e)
         | None \<Rightarrow>
             if N limitedReader \<le> 0 then
               (case snd (fst (Body_Read 1 (R limitedReader))) of
                  None \<Rightarrow> (None, Some (ErrorString ''payload too large''))
                | Some e \<Rightarrow> (Some body, None))
             else (Some body, None))"

section \<open>HTTP hooks: the retry loop\<close>

definition DefaultHTTPHookTimeout :: Duration where
  "DefaultHTTPHookTimeout = 5 * Second"

definition DefaultHTTPHookRetries :: nat where
  "DefaultHTTPHookRetries = 3"

definition HTTPHookBackoffDuration :: Duration where
  "HTTPHookBackoffDuration = 2 * Second"

definition StatusOK :: int where "StatusOK = 200"
definition StatusAccepted :: int where "StatusAccepted = 202"
definition StatusNoContent :: int where "StatusNoContent = 204"
definition StatusTooManyRequests :: int where "StatusTooManyRequests = 429"
definition StatusServiceUnavailable :: int where "StatusServiceUnavailable = 503"

text \<open>
  What the dispatcher reads of a response: the status code, the body (\<open>None\<close> for a
  \<^verbatim>\<open>nil\<close> body) and the value of the header \<^verbatim>\<open>retry-after\<close> (empty when absent).
\<close>

record Response =
  StatusCode :: int
  Response_Body :: "Body option"
  retry_after :: string

text \<open>
  The outcome of \<^verbatim>\<open>client.Do\<close>: an error, with the answer of its \<^verbatim>\<open>Timeout()\<close> when it
  is a \<^verbatim>\<open>net.Error\<close> (\<open>False\<close> for any other error), or a response.
\<close>

datatype DoOutcome = DoFailed bool error | DoResponded Response

text \<open>
  Everything one iteration of the loop takes from outside: the time elapsed since the
  start, read at the head of the iteration (the sleeps of earlier iterations are part of
  it), the result of \<^verbatim>\<open>crypto.GenerateSignatures\<close>, the error of \<^verbatim>\<open>http.NewRequest\<close>,
  whether the connection watcher saw a connection, and the outcome of \<^verbatim>\<open>client.Do\<close>.
\<close>

record Attempt =
  since :: Duration
  signatures :: "error + string list"
  newRequest :: "error option"
  gotConn :: bool
  do :: DoOutcome

text \<open>
  The \<^verbatim>\<open>for\<close> loop of \<^verbatim>\<open>runHTTPHook\<close>, from iteration \<open>i\<close> on; \<open>attempts i\<close> is what
  iteration \<open>i\<close> meets. A \<^verbatim>\<open>continue\<close> is the recursive call at \<open>i + 1\<close>, and leaving the
  loop gives the last \<^verbatim>\<open>return\<close> of the function.
\<close>

function runHTTPHook_loop :: "(nat \<Rightarrow> Attempt) \<Rightarrow> nat \<Rightarrow> string option \<times> error option" where
  "runHTTPHook_loop attempts i =
     (if i < DefaultHTTPHookRetries then
        (if since (attempts i) > int (i + 1) * DefaultHTTPHookTimeout then
           (Some [], Some (gatewayTimeoutError ErrorHookTimeout
                             ''failed to reach hook within timeout''))
         else case signatures (attempts i) of
           Inl err \<Rightarrow> (None, Some err)
         | Inr signatureList \<Rightarrow>
            (case newRequest (attempts i) of
               Some err \<Rightarrow>
                 (None, Some (WithInternalError
                                (internalServerError ''Failed to make request object'') err))
             | None \<Rightarrow>
                (case do (attempts i) of
                   DoFailed timeout err \<Rightarrow>
                     if timeout then runHTTPHook_loop attempts (i + 1)
                     else if \<not> gotConn (attempts i) \<and> i < DefaultHTTPHookRetries - 1
                       then runHTTPHook_loop attempts (i + 1)
                     else if i = DefaultHTTPHookRetries - 1 then
                       (None, Some (gatewayTimeoutError ErrorHookTimeout
                                      ''Failed to reach hook within allotted interval''))
                     else
                       (None, Some (WithInternalError
                          (internalServerError
                             ''Failed to trigger auth hook, error making HTTP request'') err))
                 | DoResponded rsp \<Rightarrow>
                     if StatusCode rsp = StatusOK \<or> StatusCode rsp = StatusNoContent
                        \<or> StatusCode rsp = StatusAccepted then
                       (case Response_Body rsp of
                          None \<Rightarrow> (None, None)
                        | Some rsp_Body \<Rightarrow>
                           (case readBodyWithLimit rsp_Body of
                              (body, Some err) \<Rightarrow> (None, Some err)
                            | (body, None) \<Rightarrow> (body, None)))
                     else if StatusCode rsp = StatusTooManyRequests
                        \<or> StatusCode rsp = StatusServiceUnavailable then
                       (if retry_after rsp \<noteq> [] then runHTTPHook_loop attempts (i + 1)
                        else (Some [], Some (internalServerError ''Service currently unavailable'')))
                     else if StatusCode rsp = StatusBadRequest then
                       (None, Some (badRequestError ErrorCodeValidationFailed
                                      ''Invalid payload sent to hook''))
                     else if StatusCode rsp = StatusUnauthorized then
                       (Some [], Some (httpError StatusUnauthorized ErrorCodeNoAuthorization
                                         ''Hook requires authorizaition token''))
                     else (Some [], Some (internalServerError ''Error executing Hook'')))))
      else (None, Some (internalServerError ''error executing hook'')))"
  by pat_completeness auto
termination
  by (relation "measure (\<lambda>(attempts, i). DefaultHTTPHookRetries - i)") auto

declare runHTTPHook_loop.simps [simp del]

text \<open>
  \<^verbatim>\<open>runHTTPHook\<close>: \<open>inputPayload\<close> is the result of \<^verbatim>\<open>json.Marshal(input)\<close>.
\<close>

definition runHTTPHook ::
  "error + string \<Rightarrow> (nat \<Rightarrow> Attempt) \<Rightarrow> string option \<times> error option" where
  "runHTTPHook inputPayload attempts =
     (case inputPayload of
        Inl err \<Rightarrow> (None, Some err)
      | Inr payload \<Rightarrow> runHTTPHook_loop attempts 0)"

text \<open>
  The endpoint that answers every attempt with 503 or 429 and a \<^verbatim>\<open>retry-after\<close> header:
  the request is signed and built, \<^verbatim>\<open>client.Do\<close> returns a response with one of the two
  status codes, and the header is not empty.
\<close>

definition always_retry :: "(nat \<Rightarrow> Attempt) \<Rightarrow> bool" where
  "always_retry attempts =
     (\<forall>i < DefaultHTTPHookRetries.
        (\<exists>sigs. signatures (attempts i) = Inr sigs) \<and> newRequest (attempts i) = None \<and>
        (\<exists>rsp. do (attempts i) = DoResponded rsp \<and>
           (StatusCode rsp = StatusServiceUnavailable \<or> StatusCode rsp = StatusTooManyRequests) \<and>
           retry_after rsp \<noteq> []))"

section \<open>MFA: factors, challenges and the store\<close>

text \<open>
  Modelled from the spec: the constants \<^verbatim>\<open>models.TOTP\<close>, \<^verbatim>\<open>models.FactorVerifiedState\<close>
  and \<^verbatim>\<open>models.FactorUnverifiedState\<close> are declared elsewhere in the repository. The spec
  names the factor type "TOTP" and the two statuses "unverified" and "verified".
\<close>

definition TOTP :: string where
  "TOTP = ''totp''"

definition FactorVerifiedState :: string where
  "FactorVerifiedState = ''verified''"

definition FactorUnverifiedState :: string where
  "FactorUnverifiedState = ''unverified''"

text \<open>
  The rows, with the attributes the spec lists; the handlers below read the identifiers,
  the status and secret of a factor, and the two timestamps of a challenge.
\<close>

record User =
  User_ID :: uuid

record Factor =
  Factor_ID :: uuid
  Factor_UserID :: uuid
  FriendlyName :: string
  FactorType :: string
  Status :: string
  TOTPSecret :: string

record Challenge =
  Challenge_ID :: uuid
  Challenge_FactorID :: uuid
  Challenge_CreatedAt :: Time
  VerifiedAt :: "Time option"

text \<open>
  The relational store behind \<^verbatim>\<open>storage.Connection\<close>: the three tables the handlers
  touch. Each kind of statement can fail on its own with a storage error; \<open>failing\<close>
  says which kinds fail, so a lookup that succeeds says nothing about the delete that
  follows it, and every error branch of the handlers is reachable.
\<close>

datatype Statement = FindChallenge | DestroyChallenge | DestroyFactor | DeleteSessions

record Connection =
  factors :: "Factor list"
  challenges :: "Challenge list"
  sessions :: "Session list"
  failing :: "Statement \<Rightarrow> bool"

text \<open>
  Modelled from the spec: \<^verbatim>\<open>Transaction\<close>, \<^verbatim>\<open>Destroy\<close> and the lookup
  \<^verbatim>\<open>FindChallengeByChallengeID\<close> belong to packages elsewhere in the repository. A
  transaction commits what its body did when the body returns no error and rolls
  everything back otherwise; destroying a row removes it from its table; the lookup
  returns the challenge with the identifier, a distinguished not-found error on a miss,
  and a storage error when the store fails.
\<close>

definition Transaction ::
  "Connection \<Rightarrow> (Connection \<Rightarrow> error + Connection) \<Rightarrow> error option \<times> Connection" where
  "Transaction db body =
     (case body db of Inl err \<Rightarrow> (Some err, db) | Inr tx \<Rightarrow> (None, tx))"

definition Destroy_Challenge :: "Challenge \<Rightarrow> Connection \<Rightarrow> error + Connection" where
  "Destroy_Challenge challenge tx =
     (if failing tx DestroyChallenge then Inl (StorageError ''delete from challenges failed'')
      else Inr (tx\<lparr>challenges :=
                  filter (\<lambda>c. Challenge_ID c \<noteq> Challenge_ID challenge) (challenges tx)\<rparr>))"

definition Destroy_Factor :: "Factor \<Rightarrow> Connection \<Rightarrow> error + Connection" where
  "Destroy_Factor factor tx =
     (if failing tx DestroyFactor then Inl (StorageError ''delete from factors failed'')
      else Inr (tx\<lparr>factors :=
                  filter (\<lambda>f. Factor_ID f \<noteq> Factor_ID factor) (factors tx)\<rparr>))"

definition FindChallengeByChallengeID :: "Connection \<Rightarrow> uuid \<Rightarrow> error + Challenge" where
  "FindChallengeByChallengeID db challengeID =
     (if failing db FindChallenge then Inl (StorageError ''select from challenges failed'')
      else case find (\<lambda>c. Challenge_ID c = challengeID) (challenges db) of
             None \<Rightarrow> Inl (NotFoundError ''Challenge not found'')
           | Some challenge \<Rightarrow> Inr challenge)"

fun IsNotFoundError :: "error \<Rightarrow> bool" where
  "IsNotFoundError (NotFoundError msg) = True"
| "IsNotFoundError err = False"

text \<open>
  \<^verbatim>\<open>InvalidateSessionsWithAALLessThan\<close>: the statement deletes the sessions of the user
  whose level is below the given one; the levels are compared as the strings they are.
\<close>

definition InvalidateSessionsWithAALLessThan ::
  "Connection \<Rightarrow> uuid \<Rightarrow> string \<Rightarrow> error + Connection" where
  "InvalidateSessionsWithAALLessThan tx userID level =
     (if failing tx DeleteSessions then Inl (StorageError ''delete from sessions failed'')
      else Inr (tx\<lparr>sessions :=
                  filter (\<lambda>s. \<not> (Session_UserID s = userID \<and> AAL s < level)) (sessions tx)\<rparr>))"

section \<open>MFA: the handlers\<close>

datatype AuditAction =
  EnrollFactorAction | CreateChallengeAction | VerifyFactorAction | UnenrollFactorAction

text \<open>
  The callees of the handlers that are defined elsewhere in the repository, as parameters:
  the TOTP check of the \<^verbatim>\<open>otp\<close> library, the audit log, the update of a challenge and
  of a factor, the issuing of tokens, the cookies, and the removal of the other sessions
  of a factor. Those that write to the store take the transaction and return it.
\<close>

record Deps =
  Validate :: "string \<Rightarrow> string \<Rightarrow> bool"
  NewAuditLogEntry :: "User \<Rightarrow> AuditAction \<Rightarrow> Connection \<Rightarrow> error + Connection"
  Challenge_Verify :: "Challenge \<Rightarrow> Connection \<Rightarrow> error + Connection"
  UpdateStatus :: "Factor \<Rightarrow> string \<Rightarrow> Connection \<Rightarrow> error + Connection"
  issueRefreshToken :: "User \<Rightarrow> string \<Rightarrow> uuid \<Rightarrow> Connection \<Rightarrow> error + (string \<times> Connection)"
  setCookieTokens :: "string \<Rightarrow> error option"
  InvalidateOtherFactorAssociatedSessions ::
    "uuid \<Rightarrow> uuid \<Rightarrow> uuid \<Rightarrow> Connection \<Rightarrow> error + Connection"

record VerifyFactorParams =
  ChallengeID :: uuid
  Code :: string

record UnenrollFactorParams =
  Unenroll_Code :: string

text \<open>
  The transaction that \<^verbatim>\<open>VerifyFactor\<close> runs for a valid code on a challenge that has not
  expired: each step returns its error at once.
\<close>

definition VerifyFactor_commit ::
  "Deps \<Rightarrow> User \<Rightarrow> Factor \<Rightarrow> Challenge \<Rightarrow> Connection \<Rightarrow> error + Connection" where
  "VerifyFactor_commit deps user factor challenge tx =
     (case NewAuditLogEntry deps user VerifyFactorAction tx of
        Inl err \<Rightarrow> Inl err
      | Inr tx1 \<Rightarrow>
     (case Challenge_Verify deps challenge tx1 of
        Inl err \<Rightarrow> Inl err
      | Inr tx2 \<Rightarrow>
     (case (if Status factor \<noteq> FactorVerifiedState
            then UpdateStatus deps factor FactorVerifiedState tx2 else Inr tx2) of
        Inl err \<Rightarrow> Inl err
      | Inr tx3 \<Rightarrow>
     (case issueRefreshToken deps user TOTP (Factor_ID factor) tx3 of
        Inl terr \<Rightarrow> Inl terr
      | Inr (token, tx4) \<Rightarrow>
     (case setCookieTokens deps token of
        Some terr \<Rightarrow> Inl (internalServerError (''Failed to set JWT cookie. '' @ Error terr))
      | None \<Rightarrow>
     (case InvalidateSessionsWithAALLessThan tx4 (User_ID user) ''aal2'' of
        Inl terr \<Rightarrow> Inl (internalServerError (''Failed to update sessions. '' @ Error terr))
      | Inr tx5 \<Rightarrow> Inr tx5))))))"

text \<open>
  \<^verbatim>\<open>VerifyFactor\<close>. \<open>body\<close> is the result of decoding the request into
  \<^verbatim>\<open>VerifyFactorParams\<close>, \<open>now\<close> the reading of the clock, \<open>ChallengeExpiryDuration\<close>
  the value of \<^verbatim>\<open>time.Duration(config.MFA.ChallengeExpiryDuration)\<close>, the configured
  lifetime in seconds, which the handler multiplies by \<^verbatim>\<open>time.Second\<close> as durations; user and factor come from the request context. The
  result is the returned error and the store afterwards; the error is \<open>None\<close> when the
  handler gets to its last line and answers 200 (the writing of the response and the
  metering call are not modelled).
\<close>

definition VerifyFactor ::
  "Deps \<Rightarrow> int \<Rightarrow> Time \<Rightarrow> User \<Rightarrow> Factor \<Rightarrow> error + VerifyFactorParams \<Rightarrow> Connection
     \<Rightarrow> error option \<times> Connection" where
  "VerifyFactor deps ChallengeExpiryDuration now user factor body db =
     (case body of
        Inl err \<Rightarrow>
          (Some (badRequestError NoErrorCode
                   (''Please check the params passed into VerifyFactor: '' @ Error err)), db)
      | Inr params \<Rightarrow>
     (case FindChallengeByChallengeID db (ChallengeID params) of
        Inl err \<Rightarrow>
          if IsNotFoundError err then (Some (notFoundError (Error err)), db)
          else (Some (WithInternalError
                        (internalServerError ''Database error finding Challenge'') err), db)
      | Inr challenge \<Rightarrow>
          if VerifiedAt challenge \<noteq> None then
            (Some (badRequestError NoErrorCode ''Challenge has already been verified''), db)
          else
            (let valid = Validate deps (Code params) (TOTPSecret factor) in
             if \<not> valid then (Some (unauthorizedError ''Invalid TOTP code entered''), db)
             else
               (let hasExpired =
                      Time_After now
                        (Time_Add (Challenge_CreatedAt challenge)
                           (Duration_Mul Second ChallengeExpiryDuration)) in
                if hasExpired then
                  (case Transaction db (\<lambda>tx.
                          case Destroy_Challenge challenge tx of
                            Inl terr \<Rightarrow>
                              Inl (WithInternalError
                                     (internalServerError ''Database error deleting challenge'')
                                     terr)
                          | Inr tx' \<Rightarrow> Inr tx') of
                     (Some err, db') \<Rightarrow> (Some err, db')
                   | (None, db') \<Rightarrow>
                       (Some (badRequestError NoErrorCode
                                (Challenge_ID challenge @
                                 '' has expired, please verify against another challenge or create a new challenge.'')),
                        db'))
                else
                  Transaction db (VerifyFactor_commit deps user factor challenge)))))"

text \<open>
  The transaction of \<^verbatim>\<open>UnenrollFactor\<close>, and the handler, with the session of the
  request context as well.
\<close>

definition UnenrollFactor_commit ::
  "Deps \<Rightarrow> User \<Rightarrow> Factor \<Rightarrow> Session \<Rightarrow> Connection \<Rightarrow> error + Connection" where
  "UnenrollFactor_commit deps user factor session tx =
     (case Destroy_Factor factor tx of
        Inl err \<Rightarrow> Inl err
      | Inr tx1 \<Rightarrow>
     (case NewAuditLogEntry deps user UnenrollFactorAction tx1 of
        Inl err \<Rightarrow> Inl err
      | Inr tx2 \<Rightarrow>
     (case InvalidateOtherFactorAssociatedSessions deps
             (Session_ID session) (User_ID user) (Factor_ID factor) tx2 of
        Inl err \<Rightarrow> Inl err
      | Inr tx3 \<Rightarrow> Inr tx3)))"

definition UnenrollFactor ::
  "Deps \<Rightarrow> User \<Rightarrow> Factor \<Rightarrow> Session \<Rightarrow> error + UnenrollFactorParams \<Rightarrow> Connection
     \<Rightarrow> error option \<times> Connection" where
  "UnenrollFactor deps user factor session body db =
     (case body of
        Inl err \<Rightarrow> (Some (badRequestError NoErrorCode (Error err)), db)
      | Inr params \<Rightarrow>
          if Status factor = FactorVerifiedState then
            (let valid = Validate deps (Unenroll_Code params) (TOTPSecret factor) in
             if \<not> valid then (Some (unauthorizedError ''Invalid code entered''), db)
             else Transaction db (UnenrollFactor_commit deps user factor session))
          else Transaction db (UnenrollFactor_commit deps user factor session))"

section \<open>Hooks: outputs and their error object\<close>

definition DefaultTimeout :: int where
  "DefaultTimeout = 2000"

record AuthHookError =
  HTTPCode :: int
  Message :: string

text \<open>
  A claim set (\<^verbatim>\<open>map[string]interface{}\<close>) is a map from claim names to values, each
  value kept as its JSON text.
\<close>

type_synonym claims = "string \<rightharpoonup> string"

record MFAVerificationAttemptInput =
  MFA_UserID :: uuid
  MFA_FactorID :: uuid
  MFA_Valid :: bool

record MFAVerificationAttemptOutput =
  MFA_Decision :: string
  MFA_Message :: string
  MFA_HookError :: AuthHookError

record PasswordVerificationAttemptInput =
  Password_UserID :: uuid
  Password_Valid :: bool

record PasswordVerificationAttemptOutput =
  Password_Decision :: string
  Password_Message :: string
  ShouldLogoutUser :: bool
  Password_HookError :: AuthHookError

record CustomAccessTokenInput =
  CustomAccessToken_UserID :: uuid
  Input_Claims :: "claims option"

record CustomAccessTokenOutput =
  Claims :: claims
  CustomAccessToken_HookError :: AuthHookError

text \<open>The three methods \<^verbatim>\<open>IsError\<close> and the three methods \<^verbatim>\<open>Error\<close>.\<close>

definition MFAVerificationAttemptOutput_IsError :: "MFAVerificationAttemptOutput \<Rightarrow> bool" where
  "MFAVerificationAttemptOutput_IsError mf = (Message (MFA_HookError mf) \<noteq> [])"

definition MFAVerificationAttemptOutput_Error :: "MFAVerificationAttemptOutput \<Rightarrow> string" where
  "MFAVerificationAttemptOutput_Error mf = Message (MFA_HookError mf)"

definition PasswordVerificationAttemptOutput_IsError ::
  "PasswordVerificationAttemptOutput \<Rightarrow> bool" where
  "PasswordVerificationAttemptOutput_IsError p = (Message (Password_HookError p) \<noteq> [])"

definition PasswordVerificationAttemptOutput_Error ::
  "PasswordVerificationAttemptOutput \<Rightarrow> string" where
  "PasswordVerificationAttemptOutput_Error p = Message (Password_HookError p)"

definition CustomAccessTokenOutput_IsError :: "CustomAccessTokenOutput \<Rightarrow> bool" where
  "CustomAccessTokenOutput_IsError ca = (Message (CustomAccessToken_HookError ca) \<noteq> [])"

definition CustomAccessTokenOutput_Error :: "CustomAccessTokenOutput \<Rightarrow> string" where
  "CustomAccessTokenOutput_Error ca = Message (CustomAccessToken_HookError ca)"

text \<open>An \<^verbatim>\<open>AuthHookError\<close> passed on as an error value.\<close>

definition AuthHookError_error :: "AuthHookError \<Rightarrow> error" where
  "AuthHookError_error a = AuthHookErr (HTTPCode a) (Message a)"

section \<open>Hooks: the Postgres variant\<close>

text \<open>
  The arguments \<^verbatim>\<open>input\<close> and \<^verbatim>\<open>output\<close> have the type \<^verbatim>\<open>any\<close>; a value of it is one
  of the hook types, or something else.
\<close>

datatype HookInput =
    MFAInput MFAVerificationAttemptInput
  | PasswordInput PasswordVerificationAttemptInput
  | AccessTokenInput CustomAccessTokenInput
  | OtherInput string

datatype HookOutput =
    MFAOutput MFAVerificationAttemptOutput
  | PasswordOutput PasswordVerificationAttemptOutput
  | AccessTokenOutput CustomAccessTokenOutput
  | OtherOutput string

text \<open>A call either panics or returns.\<close>

datatype 'a go = Panic string | Return 'a

text \<open>
  What the hook code takes from outside: the JSON encoder, the execution of a statement
  (\<^verbatim>\<open>tx.RawQuery(q).Exec()\<close>), the call of the hook function with the request
  (\<^verbatim>\<open>tx.RawQuery(q, request).First(&response)\<close>), the JSON decoder at each of the three
  output types, which returns its error and the output as it left it, and
  \<^verbatim>\<open>validateTokenClaims\<close>, which is defined elsewhere in the repository.
\<close>

record PgEnv =
  Marshal :: "HookInput \<Rightarrow> error + string"
  Exec :: "string \<Rightarrow> error option"
  First :: "string \<Rightarrow> string \<Rightarrow> error + string"
  Unmarshal_MFA ::
    "string \<Rightarrow> MFAVerificationAttemptOutput \<Rightarrow> error option \<times> MFAVerificationAttemptOutput"
  Unmarshal_Password ::
    "string \<Rightarrow> PasswordVerificationAttemptOutput
       \<Rightarrow> error option \<times> PasswordVerificationAttemptOutput"
  Unmarshal_AccessToken ::
    "string \<Rightarrow> CustomAccessTokenOutput \<Rightarrow> error option \<times> CustomAccessTokenOutput"
  validateTokenClaims :: "claims \<Rightarrow> error option"

record HookConfiguration =
  MFAVerificationAttempt_HookName :: string
  PasswordVerificationAttempt_HookName :: string
  CustomAccessToken_HookName :: string

text \<open>
  The closure \<^verbatim>\<open>invokeHookFunc\<close> of \<^verbatim>\<open>runPostgresHook\<close>: set the timeout, call the
  function, reset the timeout. It returns the error, or the response it read.
\<close>

definition invokeHookFunc :: "PgEnv \<Rightarrow> string \<Rightarrow> string \<Rightarrow> error + string" where
  "invokeHookFunc env name request =
     (case Exec env (''set local statement_timeout TO '' @ [CHR 0x27] @ ''2000'' @ [CHR 0x27] @ '';'') of
        Some terr \<Rightarrow> Inl terr
      | None \<Rightarrow>
     (case First env (''select '' @ name @ ''(?);'') request of
        Inl terr \<Rightarrow> Inl terr
      | Inr response \<Rightarrow>
     (case Exec env ''set local statement_timeout TO default;'' of
        Some terr \<Rightarrow> Inl terr
      | None \<Rightarrow> Inr response)))"

text \<open>
  \<^verbatim>\<open>runPostgresHook\<close>. \<open>tx\<close> is the transaction of the caller, \<open>None\<close> for \<^verbatim>\<open>nil\<close>;
  without one the closure runs in a transaction of its own, whose error is the closure's.
  \<open>decode\<close> is \<^verbatim>\<open>json.Unmarshal\<close> at the type of \<open>output\<close>. The result is the pair the Go
  function returns, with the output as the call leaves it.
\<close>

definition runPostgresHook ::
  "PgEnv \<Rightarrow> Connection option \<Rightarrow> string \<Rightarrow> HookInput \<Rightarrow> (string \<Rightarrow> 'o \<Rightarrow> error option \<times> 'o) \<Rightarrow> 'o
     \<Rightarrow> ((string option \<times> error option) \<times> 'o) go" where
  "runPostgresHook env tx name input decode output =
     (case Marshal env input of
        Inl err \<Rightarrow> Panic (Error err)
      | Inr request \<Rightarrow>
         (case (if tx \<noteq> None then invokeHookFunc env name request
                else invokeHookFunc env name request) of
            Inl err \<Rightarrow> Return ((None, Some err), output)
          | Inr response \<Rightarrow>
             (case decode response output of
                (Some err, output') \<Rightarrow> Return ((Some response, Some err), output')
              | (None, output') \<Rightarrow> Return ((Some response, None), output'))))"

text \<open>
  The failure that \<^verbatim>\<open>invokePostgresHook\<close> builds from the error object of an output,
  the same lines in its three branches: the status is the object's HTTP code, 500 when
  the code is 0, the message is the object's message, and the object is the internal
  error.
\<close>

definition hookError_failure :: "AuthHookError \<Rightarrow> error" where
  "hookError_failure hookError =
     (let httpCode = HTTPCode hookError;
          httpCode = (if httpCode = 0 then StatusInternalServerError else httpCode);
          httpError = HTTPError httpCode NoErrorCode (Message hookError) None
      in WithInternalError httpError (AuthHookError_error hookError))"

text \<open>
  \<^verbatim>\<open>invokePostgresHook\<close>: the switch on the type of the input, the assertion on the type
  of the output, the call, and the reading of the output. The result is the returned
  error and the output as the call leaves it.
\<close>

definition invokePostgresHook ::
  "PgEnv \<Rightarrow> HookConfiguration \<Rightarrow> Connection option \<Rightarrow> HookInput \<Rightarrow> HookOutput
     \<Rightarrow> (error option \<times> HookOutput) go" where
  "invokePostgresHook env config conn input output =
     (case input of
        MFAInput i \<Rightarrow>
          (case output of
             MFAOutput out \<Rightarrow>
               (case runPostgresHook env conn (MFAVerificationAttempt_HookName config) input
                       (Unmarshal_MFA env) out of
                  Panic msg \<Rightarrow> Panic msg
                | Return ((response, Some err), hookOutput) \<Rightarrow>
                    Return (Some (WithInternalError
                              (internalServerError ''Error invoking MFA verification hook.'') err),
                            MFAOutput hookOutput)
                | Return ((response, None), hookOutput) \<Rightarrow>
                    if MFAVerificationAttemptOutput_IsError hookOutput then
                      Return (Some (hookError_failure (MFA_HookError hookOutput)),
                              MFAOutput hookOutput)
                    else Return (None, MFAOutput hookOutput))
           | _ \<Rightarrow> Panic ''output should be *hooks.MFAVerificationAttemptOutput'')
      | PasswordInput i \<Rightarrow>
          (case output of
             PasswordOutput out \<Rightarrow>
               (case runPostgresHook env conn (PasswordVerificationAttempt_HookName config) input
                       (Unmarshal_Password env) out of
                  Panic msg \<Rightarrow> Panic msg
                | Return ((response, Some err), hookOutput) \<Rightarrow>
                    Return (Some (WithInternalError
                              (internalServerError ''Error invoking password verification hook.'')
                              err),
                            PasswordOutput hookOutput)
                | Return ((response, None), hookOutput) \<Rightarrow>
                    if PasswordVerificationAttemptOutput_IsError hookOutput then
                      Return (Some (hookError_failure (Password_HookError hookOutput)),
                              PasswordOutput hookOutput)
                    else Return (None, PasswordOutput hookOutput))
           | _ \<Rightarrow> Panic ''output should be *hooks.PasswordVerificationAttemptOutput'')
      | AccessTokenInput i \<Rightarrow>
          (case output of
             AccessTokenOutput out \<Rightarrow>
               (case runPostgresHook env conn (CustomAccessToken_HookName config) input
                       (Unmarshal_AccessToken env) out of
                  Panic msg \<Rightarrow> Panic msg
                | Return ((response, Some err), hookOutput) \<Rightarrow>
                    Return (Some (WithInternalError
                              (internalServerError ''Error invoking access token hook.'') err),
                            AccessTokenOutput hookOutput)
                | Return ((response, None), hookOutput) \<Rightarrow>
                    if CustomAccessTokenOutput_IsError hookOutput then
                      Return (Some (hookError_failure (CustomAccessToken_HookError hookOutput)),
                              AccessTokenOutput hookOutput)
                    else
                      (case validateTokenClaims env (Claims hookOutput) of
                         Some err \<Rightarrow>
                           (let httpCode = HTTPCode (CustomAccessToken_HookError hookOutput);
                                httpCode = (if httpCode = 0 then StatusInternalServerError
                                            else httpCode);
                                httpError = HTTPError httpCode NoErrorCode (Error err) None
                            in Return (Some httpError, AccessTokenOutput hookOutput))
                       | None \<Rightarrow> Return (None, AccessTokenOutput hookOutput)))
           | _ \<Rightarrow> Panic ''output should be *hooks.CustomAccessTokenOutput'')
      | OtherInput t \<Rightarrow> Panic ''unknown Postgres hook input type'')"

section \<open>Concrete inputs\<close>

text \<open>The values at which the theorems below are instantiated.\<close>

definition flow_example :: "string \<Rightarrow> string \<Rightarrow> Time \<Rightarrow> FlowState" where
  "flow_example method challenge created =
     \<lparr>FlowState_ID = ''f1'', FlowState_UserID = None, AuthCode = ''a1'',
      FlowState_AuthenticationMethod = ''pkce'', CodeChallenge = challenge,
      CodeChallengeMethod = method, ProviderType = ''github'', ProviderAccessToken = [],
      ProviderRefreshToken = [], FlowState_CreatedAt = created, FlowState_UpdatedAt = created\<rparr>"


definition body_20481 :: Body where
  "body_20481 = \<lparr>pending = replicate 20481 (CHR ''a''), ending = EOF, endWithData = True\<rparr>"

definition response_503 :: Response where
  "response_503 =
     \<lparr>StatusCode = 503, Response_Body = None, retry_after = ''1''\<rparr>"

text \<open>
  An endpoint that answers 503 with \<^verbatim>\<open>retry-after: 1\<close> within a millisecond, every time.
\<close>

definition attempts_503 :: "nat \<Rightarrow> Attempt" where
  "attempts_503 i =
     \<lparr>since = int i * 1000000, signatures = Inr [''v1,c2lnbmF0dXJl''], newRequest = None, gotConn = True,
      do = DoResponded response_503\<rparr>"

definition deps_example :: Deps where
  "deps_example =
     \<lparr>Validate = (\<lambda>code secret. code = ''123456''),
      NewAuditLogEntry = (\<lambda>user action tx. Inr tx),
      Challenge_Verify = (\<lambda>challenge tx. Inr tx),
      UpdateStatus = (\<lambda>factor status tx. Inr tx),
      issueRefreshToken = (\<lambda>user method factorID tx. Inr (''token'', tx)),
      setCookieTokens = (\<lambda>token. None),
      InvalidateOtherFactorAssociatedSessions = (\<lambda>sessionID userID factorID tx. Inr tx)\<rparr>"

definition user_example :: User where
  "user_example = \<lparr>User_ID = ''u1''\<rparr>"

definition factor_example :: Factor where
  "factor_example =
     \<lparr>Factor_ID = ''f1'', Factor_UserID = ''u1'', FriendlyName = ''phone'',
      FactorType = ''totp'', Status = ''verified'', TOTPSecret = ''JBSWY3DPEHPK3PXP''\<rparr>"

definition challenge_example :: "Time option \<Rightarrow> Challenge" where
  "challenge_example verified =
     \<lparr>Challenge_ID = ''c1'', Challenge_FactorID = ''f1'', Challenge_CreatedAt = 0,
      VerifiedAt = verified\<rparr>"

definition session_example :: Session where
  "session_example =
     \<lparr>Session_ID = ''s1'', Session_UserID = ''u1'', Session_FactorID = Some ''f1'',
      AMRClaims = [], AAL = ''aal2''\<rparr>"

definition db_example :: "Time option \<Rightarrow> Connection" where
  "db_example verified =
     \<lparr>factors = [factor_example], challenges = [challenge_example verified],
      sessions = [session_example], failing = (\<lambda>statement. False)\<rparr>"

text \<open>The same store when deleting a challenge fails and every other statement works.\<close>

definition db_delete_fails :: Connection where
  "db_delete_fails = (db_example None)\<lparr>failing := (\<lambda>statement. statement = DestroyChallenge)\<rparr>"



definition hook_config_example :: HookConfiguration where
  "hook_config_example =
     \<lparr>MFAVerificationAttempt_HookName = ''public.mfa_hook'',
      PasswordVerificationAttempt_HookName = ''public.password_hook'',
      CustomAccessToken_HookName = ''public.token_hook''\<rparr>"

text \<open>
  A database whose hook functions answer with an error object of the given HTTP code and
  message, and a claim check that accepts every claim set.
\<close>

definition pg_env_example :: "int \<Rightarrow> string \<Rightarrow> PgEnv" where
  "pg_env_example code msg =
     \<lparr>Marshal = (\<lambda>input. Inr ''{}''),
      Exec = (\<lambda>query. None),
      First = (\<lambda>query request. Inr ''{}''),
      Unmarshal_MFA = (\<lambda>response out.
        (None, out\<lparr>MFA_HookError := \<lparr>HTTPCode = code, Message = msg\<rparr>\<rparr>)),
      Unmarshal_Password = (\<lambda>response out.
        (None, out\<lparr>Password_HookError := \<lparr>HTTPCode = code, Message = msg\<rparr>\<rparr>)),
      Unmarshal_AccessToken = (\<lambda>response out.
        (None, out\<lparr>CustomAccessToken_HookError := \<lparr>HTTPCode = code, Message = msg\<rparr>\<rparr>)),
      validateTokenClaims = (\<lambda>claims. None)\<rparr>"

definition mfa_input_example :: MFAVerificationAttemptInput where
  "mfa_input_example = \<lparr>MFA_UserID = ''u1'', MFA_FactorID = ''f1'', MFA_Valid = True\<rparr>"

definition mfa_output_zero :: MFAVerificationAttemptOutput where
  "mfa_output_zero =
     \<lparr>MFA_Decision = [], MFA_Message = [], MFA_HookError = \<lparr>HTTPCode = 0, Message = []\<rparr>\<rparr>"
section \<open>Sessions: the assurance level\<close>

lemma CalculateAALAndAMR_loop_eq:
  "CalculateAALAndAMR_loop totp cs (aal, amr) =
     (if totp \<in> AuthenticationMethod ` set cs then ''aal2'' else aal, amr @ map amr_entry cs)"
  by (induction cs arbitrary: aal amr) auto

text \<open>
  C4. For every session, \<^verbatim>\<open>CalculateAALAndAMR\<close> returns "aal2" exactly when some claim
  of the session's AMR trail has the TOTP method, and "aal1" otherwise; the returned AMR
  list has one entry per claim of the trail, in the trail's order, carrying the claim's
  method and the Unix time of its update.
\<close>

theorem CalculateAALAndAMR_aal2_iff_totp:
  "fst (CalculateAALAndAMR totp s) =
     (if totp \<in> AuthenticationMethod ` set (AMRClaims s) then ''aal2'' else ''aal1'')
   \<and> (fst (CalculateAALAndAMR totp s) = ''aal2'') = (totp \<in> AuthenticationMethod ` set (AMRClaims s))
   \<and> (fst (CalculateAALAndAMR totp s) = ''aal1'') = (totp \<notin> AuthenticationMethod ` set (AMRClaims s))
   \<and> length (snd (CalculateAALAndAMR totp s)) = length (AMRClaims s)
   \<and> snd (CalculateAALAndAMR totp s) = map amr_entry (AMRClaims s)"
  by (simp add: CalculateAALAndAMR_def CalculateAALAndAMR_loop_eq)

section \<open>Flow state: expiry and the PKCE check\<close>

lemma IsExpired_iff: "IsExpired now f ttl = (now + ttl < FlowState_CreatedAt f)"
  by (simp add: IsExpired_def Time_After_def Time_Add_def)

lemma IsExpired_never_for_past_record:
  "FlowState_CreatedAt f \<le> now \<Longrightarrow> 0 \<le> ttl \<Longrightarrow> \<not> IsExpired now f ttl"
  by (simp add: IsExpired_iff)

text \<open>
  C2. \<^verbatim>\<open>IsExpired\<close> is meant to hold exactly when the current time is after
  \<open>created_at + ttl\<close>. The code asks instead whether \<open>created_at\<close> is after
  \<open>now + ttl\<close>: a flow state created at the epoch, with a lifetime of 10 seconds, is
  past its deadline 100 seconds later and is still reported as not expired.
\<close>

theorem IsExpired_false_past_deadline:
  "Time_After (100 * Second)
     (Time_Add (FlowState_CreatedAt (flow_example ''s256'' ''c'' 0)) (10 * Second))
   \<and> IsExpired (100 * Second) (flow_example ''s256'' ''c'' 0) (10 * Second) = False"
  by (simp add: IsExpired_iff Time_After_def Time_Add_def Second_def flow_example_def)



lemma VerifyPKCE_unsupported:
  "CodeChallengeMethod f \<noteq> ''s256'' \<Longrightarrow> CodeChallengeMethod f \<noteq> ''plain'' \<Longrightarrow>
   VerifyPKCE Sum256 EncodeToString f v = Some (ErrorString InvalidCodeMethodError)"
  by (simp add: VerifyPKCE_def)


section \<open>HTTP hooks: the size limit of the response body\<close>

lemma take_take_drop:
  "k \<le> n \<Longrightarrow> take k xs @ take (n - k) (drop k xs) = take n xs"
  by (metis le_add_diff_inverse take_add)

lemma ReadAll_loop_eq:
  "ending (R r) = EOF \<Longrightarrow>
   ReadAll_loop r b =
     ((b @ take (nat (N r)) (pending (R r)), None),
      \<lparr>R = (R r)\<lparr>pending := drop (nat (N r)) (pending (R r))\<rparr>,
       N = N r - int (length (take (nat (N r)) (pending (R r))))\<rparr>)"
proof (induction r b rule: ReadAll_loop.induct)
  case (1 r b)
  show ?case
  proof (cases "N r \<le> 0")
    case True
    then show ?thesis
      by (subst ReadAll_loop.simps) (simp add: LimitedReader_Read_def)
  next
    case pos: False
    define k where "k = (if 512 > N r then nat (N r) else 512)"
    have k: "0 < k" "k \<le> nat (N r)"
      using pos by (auto simp: k_def)
    show ?thesis
    proof (cases "pending (R r) = []")
      case True
      then show ?thesis
        using pos 1(2)
        by (subst ReadAll_loop.simps) (simp add: LimitedReader_Read_def Body_Read_def)
    next
      case ne: False
      show ?thesis
      proof (cases "drop k (pending (R r)) = [] \<and> endWithData (R r)")
        case True
        then have "length (pending (R r)) \<le> k"
          by simp
        then show ?thesis
          using pos ne True 1(2) k
          by (subst ReadAll_loop.simps)
            (auto simp: LimitedReader_Read_def Body_Read_def Let_def k_def)
      next
        case False
        define r' where "r' = \<lparr>R = (R r)\<lparr>pending := drop k (pending (R r))\<rparr>,
          N = N r - int (length (take k (pending (R r))))\<rparr>"
        have step: "LimitedReader_Read 512 r = ((take k (pending (R r)), None), r')"
          using pos ne False
          by (auto simp: LimitedReader_Read_def Body_Read_def Let_def k_def r'_def)
        have "ReadAll_loop r b = ReadAll_loop r' (b @ take k (pending (R r)))"
          by (subst ReadAll_loop.simps) (simp add: step)
        also have "\<dots> = ((b @ take k (pending (R r)) @ take (nat (N r')) (pending (R r')), None),
           \<lparr>R = (R r')\<lparr>pending := drop (nat (N r')) (pending (R r'))\<rparr>,
            N = N r' - int (length (take (nat (N r')) (pending (R r'))))\<rparr>)"
          using "1.IH" [OF refl refl refl refl] 1(2)
          by (simp add: step) (simp add: r'_def)
        finally have *: "ReadAll_loop r b =
          ((b @ take k (pending (R r)) @ take (nat (N r')) (pending (R r')), None),
           \<lparr>R = (R r')\<lparr>pending := drop (nat (N r')) (pending (R r'))\<rparr>,
            N = N r' - int (length (take (nat (N r')) (pending (R r'))))\<rparr>)" .
        show ?thesis
        proof (cases "length (pending (R r)) \<le> k")
          case True
          then show ?thesis
            using k pos by (simp add: * r'_def)
        next
          case False
          then have len: "length (take k (pending (R r))) = k"
            by simp
          have P': "pending (R r') = drop k (pending (R r))"
            and R': "(R r')\<lparr>pending := ps\<rparr> = (R r)\<lparr>pending := ps\<rparr>" for ps
            by (simp_all add: r'_def)
          have n': "nat (N r') = nat (N r) - k" "N r' = N r - int k"
            using k pos False by (simp_all add: r'_def min_def)
          have "take k (pending (R r)) @ take (nat (N r')) (pending (R r')) =
                  take (nat (N r)) (pending (R r))"
            using k by (simp add: n'(1) P' take_take_drop)
          moreover have "drop (nat (N r')) (pending (R r')) = drop (nat (N r)) (pending (R r))"
            using k by (simp add: n'(1) P')
          moreover have "N r' - int (length (take (nat (N r')) (pending (R r')))) =
                  N r - int (length (take (nat (N r)) (pending (R r))))"
            using k pos False unfolding n'(2) P' length_take length_drop by linarith
          ultimately show ?thesis
            by (simp add: * R')
        qed
      qed
    qed
  qed
qed

lemma limit_pos: "0 < limit"
  by (simp add: limit_def)

lemma readBodyWithLimit_eq:
  assumes "ending b = EOF"
  shows "readBodyWithLimit b =
     (if int (length (pending b)) \<le> limit then (Some (pending b), None)
      else if endWithData b \<and> int (length (pending b)) = limit + 1
        then (Some (take (nat limit) (pending b)), None)
      else (None, Some (ErrorString ''payload too large'')))"
proof -
  have ra: "ReadAll \<lparr>R = b, N = limit\<rparr> =
     (([] @ take (nat limit) (pending b), None),
      \<lparr>R = b\<lparr>pending := drop (nat limit) (pending b)\<rparr>,
       N = limit - int (length (take (nat limit) (pending b)))\<rparr>)"
    unfolding ReadAll_def using assms by (subst ReadAll_loop_eq) simp_all
  show ?thesis
  proof (cases "int (length (pending b)) < limit")
    case True
    then show ?thesis
      using limit_pos by (simp add: readBodyWithLimit_def ra Let_def)
  next
    case ge: False
    then have n0: "limit - int (length (take (nat limit) (pending b))) \<le> 0"
      using limit_pos by simp
    show ?thesis
    proof (cases "int (length (pending b)) = limit")
      case True
      then show ?thesis
        using limit_pos by (simp add: readBodyWithLimit_def ra Let_def Body_Read_def)
    next
      case False
      with ge have gt: "limit < int (length (pending b))"
        by simp
      then have ne: "drop (nat limit) (pending b) \<noteq> []"
        using limit_pos by simp
      have rest: "(drop (Suc (nat limit)) (pending b) = []) = (int (length (pending b)) = limit + 1)"
        using gt limit_pos by simp linarith
      show ?thesis
        using gt ne n0 rest
        by (simp add: readBodyWithLimit_def ra Let_def Body_Read_def)
    qed
  qed
qed

lemma readBodyWithLimit_at_limit:
  "ending b = EOF \<Longrightarrow> int (length (pending b)) = limit \<Longrightarrow>
   readBodyWithLimit b = (Some (pending b), None)"
  by (simp add: readBodyWithLimit_eq)

lemma readBodyWithLimit_over_limit:
  "ending b = EOF \<Longrightarrow> limit < int (length (pending b)) \<Longrightarrow>
   \<not> endWithData b \<or> limit + 1 < int (length (pending b)) \<Longrightarrow>
   readBodyWithLimit b = (None, Some (ErrorString ''payload too large''))"
  by (auto simp: readBodyWithLimit_eq)

text \<open>
  C6. A body of exactly 20 KiB is read whole and accepted (\<open>readBodyWithLimit_at_limit\<close>),
  and a longer body is refused as too large when its reader reports the end of the stream
  by a read of its own, or when it is longer by two bytes or more
  (\<open>readBodyWithLimit_over_limit\<close>). The extra read looks only at the error of
  \<^verbatim>\<open>Read\<close>, not at the number of bytes it got: a body of 20 KiB + 1 byte whose reader
  hands over the last byte together with \<^verbatim>\<open>io.EOF\<close> is accepted, cut to 20 KiB.
\<close>

theorem readBodyWithLimit_accepts_limit_plus_one:
  "int (length (pending body_20481)) = 20 * 1024 + 1
   \<and> readBodyWithLimit body_20481 = (Some (replicate 20480 (CHR ''a'')), None)"
  by (simp add: readBodyWithLimit_eq body_20481_def limit_def)

section \<open>HTTP hooks: an endpoint that keeps asking to retry\<close>

lemma runHTTPHook_loop_retry:
  assumes "i < DefaultHTTPHookRetries"
    and "signatures (attempts i) = Inr sigs"
    and "newRequest (attempts i) = None"
    and "do (attempts i) = DoResponded rsp"
    and "StatusCode rsp = StatusServiceUnavailable \<or> StatusCode rsp = StatusTooManyRequests"
    and "retry_after rsp \<noteq> []"
  shows "runHTTPHook_loop attempts i =
     (if since (attempts i) > int (i + 1) * DefaultHTTPHookTimeout
      then (Some [], Some (gatewayTimeoutError ErrorHookTimeout
                             ''failed to reach hook within timeout''))
      else runHTTPHook_loop attempts (i + 1))"
  using assms
  by (subst runHTTPHook_loop.simps)
    (auto simp: StatusServiceUnavailable_def StatusTooManyRequests_def StatusOK_def
      StatusNoContent_def StatusAccepted_def)

lemma runHTTPHook_loop_end:
  "runHTTPHook_loop attempts DefaultHTTPHookRetries =
     (None, Some (internalServerError ''error executing hook''))"
  by (subst runHTTPHook_loop.simps) simp

lemma runHTTPHook_loop_always_retry:
  assumes "always_retry attempts"
  shows "runHTTPHook_loop attempts 0 =
     (if (\<exists>i < DefaultHTTPHookRetries. since (attempts i) > int (i + 1) * DefaultHTTPHookTimeout)
      then (Some [], Some (gatewayTimeoutError ErrorHookTimeout
                             ''failed to reach hook within timeout''))
      else (None, Some (internalServerError ''error executing hook'')))"
proof -
  have step: "runHTTPHook_loop attempts i =
     (if since (attempts i) > int (i + 1) * DefaultHTTPHookTimeout
      then (Some [], Some (gatewayTimeoutError ErrorHookTimeout
                             ''failed to reach hook within timeout''))
      else runHTTPHook_loop attempts (i + 1))" if "i < DefaultHTTPHookRetries" for i
    using assms that unfolding always_retry_def
    by (metis runHTTPHook_loop_retry)
  have three: "(\<exists>i < DefaultHTTPHookRetries. P i) = (P 0 \<or> P 1 \<or> P 2)" for P
    by (auto simp: DefaultHTTPHookRetries_def less_Suc_eq numeral_3_eq_3 numeral_2_eq_2)
  have lt: "0 < DefaultHTTPHookRetries" "1 < DefaultHTTPHookRetries" "2 < DefaultHTTPHookRetries"
    by (simp_all add: DefaultHTTPHookRetries_def)
  have n: "(0::nat) + 1 = 1" "(1::nat) + 1 = 2" "(2::nat) + 1 = 3"
    by simp_all
  have s3: "runHTTPHook_loop attempts 3 =
     (None, Some (internalServerError ''error executing hook''))"
    using runHTTPHook_loop_end [of attempts] by (simp add: DefaultHTTPHookRetries_def)
  show ?thesis
    unfolding three step [OF lt(1)] step [OF lt(2)] step [OF lt(3)] n s3 by simp
qed

lemma always_retry_attempts_503: "always_retry attempts_503"
  by (simp add: always_retry_def attempts_503_def response_503_def StatusServiceUnavailable_def)

lemma attempts_503_in_time:
  "\<not> (\<exists>i < DefaultHTTPHookRetries.
        since (attempts_503 i) > int (i + 1) * DefaultHTTPHookTimeout)"
  by (simp add: attempts_503_def DefaultHTTPHookTimeout_def Second_def)

text \<open>
  C5, as stated, fails. An endpoint that answers 503 with \<^verbatim>\<open>retry-after: 1\<close> on each
  of the three attempts, well within the time allowed, makes the loop run out, and the function then returns its
  last line, an internal server error with status 500; the status is not 504.
\<close>

theorem runHTTPHook_exhausted_is_internal_error:
  "runHTTPHook (Inr ''{}'') attempts_503 =
     (None, Some (HTTPError 500 NoErrorCode ''error executing hook'' None))
   \<and> HTTPStatus (the (snd (runHTTPHook (Inr ''{}'') attempts_503))) \<noteq> StatusGatewayTimeout"
  using runHTTPHook_loop_always_retry [OF always_retry_attempts_503] attempts_503_in_time
  by (simp add: runHTTPHook_def internalServerError_def httpError_def
      StatusInternalServerError_def StatusGatewayTimeout_def)

text \<open>
  C5, amended. If the endpoint answers 503 or 429 with a \<^verbatim>\<open>retry-after\<close> header on
  every attempt, the dispatcher makes at most three attempts and never returns success.
  It returns the gateway-timeout failure (504) exactly when the elapsed-time guard trips
  at the head of one of the attempts; otherwise, after the third attempt, it returns an
  internal-server-error failure (500, "error executing hook").
\<close>

theorem runHTTPHook_retry_after_never_succeeds:
  assumes "always_retry attempts"
  shows "runHTTPHook (Inr payload) attempts =
     (if (\<exists>i < DefaultHTTPHookRetries. since (attempts i) > int (i + 1) * DefaultHTTPHookTimeout)
      then (Some [], Some (gatewayTimeoutError ErrorHookTimeout
                             ''failed to reach hook within timeout''))
      else (None, Some (internalServerError ''error executing hook'')))
    \<and> snd (runHTTPHook (Inr payload) attempts) \<noteq> None
    \<and> HTTPStatus (the (snd (runHTTPHook (Inr payload) attempts))) \<in>
           {StatusGatewayTimeout, StatusInternalServerError}"
  using runHTTPHook_loop_always_retry [OF assms]
  by (simp add: runHTTPHook_def gatewayTimeoutError_def internalServerError_def
      httpError_def)

theorem runHTTPHook_retry_after_never_succeeds_witness:
  "always_retry attempts_503
   \<and> runHTTPHook (Inr ''{}'') attempts_503 =
       (None, Some (internalServerError ''error executing hook''))
   \<and> snd (runHTTPHook (Inr ''{}'') attempts_503) \<noteq> None"
  using runHTTPHook_retry_after_never_succeeds [OF always_retry_attempts_503, of "''{}''"]
    always_retry_attempts_503 attempts_503_in_time
  by simp
section \<open>MFA: verifying a challenge and unenrolling a factor\<close>

lemma int64_in_range:
  "- (2 ^ 63) \<le> x \<Longrightarrow> x < 2 ^ 63 \<Longrightarrow> int64 x = x"
  by (simp add: int64_def)

lemma Duration_Mul_seconds:
  "- 9223372036 \<le> seconds \<Longrightarrow> seconds \<le> 9223372036 \<Longrightarrow>
   Duration_Mul Second seconds = Second * seconds"
  unfolding Duration_Mul_def Second_def by (rule int64_in_range) simp_all

lemma Duration_Mul_300: "Duration_Mul 1000000000 300 = 300000000000"
  by (simp add: Duration_Mul_def int64_def)

lemma Duration_Mul_wraps:
  "Duration_Mul Second (- 9223372037) = 9223372036709551616"
  by (simp add: Duration_Mul_def int64_def Second_def)

lemma FindChallengeByChallengeID_available:
  "FindChallengeByChallengeID db challengeID = Inr challenge \<Longrightarrow> \<not> failing db FindChallenge"
  by (auto simp: FindChallengeByChallengeID_def split: if_splits)

lemma FindChallengeByChallengeID_example:
  "FindChallengeByChallengeID (db_example verified) ''c1'' = Inr (challenge_example verified)"
  by (simp add: FindChallengeByChallengeID_def db_example_def challenge_example_def)

lemma find_after_Destroy_Challenge:
  "find (\<lambda>c. Challenge_ID c = Challenge_ID challenge)
     (filter (\<lambda>c. Challenge_ID c \<noteq> Challenge_ID challenge) cs) = None"
  by (simp add: find_None_iff)

lemma VerifyFactor_unverified:
  assumes "FindChallengeByChallengeID db (ChallengeID params) = Inr challenge"
    and "VerifiedAt challenge = None"
  shows "VerifyFactor deps expiry now user factor (Inr params) db =
     (if \<not> Validate deps (Code params) (TOTPSecret factor)
      then (Some (unauthorizedError ''Invalid TOTP code entered''), db)
      else if Time_After now
                (Time_Add (Challenge_CreatedAt challenge) (Duration_Mul Second expiry))
      then (if failing db DestroyChallenge
            then (Some (WithInternalError
                          (internalServerError ''Database error deleting challenge'')
                          (StorageError ''delete from challenges failed'')), db)
            else (Some (badRequestError NoErrorCode
                    (Challenge_ID challenge @
                     '' has expired, please verify against another challenge or create a new challenge.'')),
                  db\<lparr>challenges :=
                       filter (\<lambda>c. Challenge_ID c \<noteq> Challenge_ID challenge) (challenges db)\<rparr>))
      else Transaction db (VerifyFactor_commit deps user factor challenge))"
  using assms
  by (simp add: VerifyFactor_def Transaction_def Destroy_Challenge_def Let_def)

text \<open>
  The wrap-around at work: with a configured lifetime of -9223372037 seconds the product
  is a duration of about 292 years, the challenge of the example is not expired for the
  handler, and a valid code verifies it.
\<close>

lemma VerifyFactor_wrapped_lifetime:
  "fst (VerifyFactor deps_example (- 9223372037) (1000 * Second) user_example factor_example
          (Inr \<lparr>ChallengeID = ''c1'', Code = ''123456''\<rparr>) (db_example None)) = None"
  using VerifyFactor_unverified [of "db_example None"
      "\<lparr>ChallengeID = ''c1'', Code = ''123456''\<rparr>" "challenge_example None"
      deps_example "- 9223372037" "1000 * Second" user_example factor_example]
    FindChallengeByChallengeID_example [of None]
  by (simp add: Duration_Mul_wraps challenge_example_def,
      simp add: deps_example_def Time_After_def Time_Add_def Second_def Transaction_def
        VerifyFactor_commit_def factor_example_def FactorVerifiedState_def
        InvalidateSessionsWithAALLessThan_def db_example_def)

text \<open>
  C7. When the challenge that the request names is found with its verified-at timestamp
  set, \<^verbatim>\<open>VerifyFactor\<close> fails with BadRequest ("Challenge has already been verified") and
  leaves the store as it was, whatever the submitted code, the clock and the factor are.
\<close>

theorem VerifyFactor_already_verified:
  assumes "FindChallengeByChallengeID db (ChallengeID params) = Inr challenge"
    and "VerifiedAt challenge \<noteq> None"
  shows "VerifyFactor deps expiry now user factor (Inr params) db =
           (Some (badRequestError NoErrorCode ''Challenge has already been verified''), db)
    \<and> HTTPStatus (badRequestError NoErrorCode ''Challenge has already been verified'')
          = StatusBadRequest"
  using assms by (simp add: VerifyFactor_def badRequestError_def httpError_def)

theorem VerifyFactor_already_verified_witness:
  "FindChallengeByChallengeID (db_example (Some 5)) ''c1'' = Inr (challenge_example (Some 5))
   \<and> VerifiedAt (challenge_example (Some 5)) \<noteq> None
   \<and> VerifyFactor deps_example 300 (10 * Second) user_example factor_example
         (Inr \<lparr>ChallengeID = ''c1'', Code = ''123456''\<rparr>) (db_example (Some 5)) =
       (Some (badRequestError NoErrorCode ''Challenge has already been verified''),
        db_example (Some 5))"
  using VerifyFactor_already_verified [of "db_example (Some 5)"
      "\<lparr>ChallengeID = ''c1'', Code = ''123456''\<rparr>" "challenge_example (Some 5)"
      deps_example 300 "10 * Second" user_example factor_example]
    FindChallengeByChallengeID_example [of "Some 5"]
  by (simp add: challenge_example_def)

text \<open>
  C1, as stated, fails. The code validates the TOTP code before it looks at the age of
  the challenge: a challenge created at the epoch with a lifetime of 300 seconds is
  expired 1000 seconds later, and a wrong code against it gets Unauthorized, with the
  challenge still in the store.
\<close>

theorem VerifyFactor_wrong_code_on_stale_challenge:
  "Time_After (1000 * Second)
     (Time_Add (Challenge_CreatedAt (challenge_example None)) (Duration_Mul Second 300))
   \<and> Duration_Mul Second 300 = 300 * Second
   \<and> \<not> Validate deps_example ''000000'' (TOTPSecret factor_example)
   \<and> VerifyFactor deps_example 300 (1000 * Second) user_example factor_example
         (Inr \<lparr>ChallengeID = ''c1'', Code = ''000000''\<rparr>) (db_example None) =
       (Some (HTTPError 401 NoErrorCode ''Invalid TOTP code entered'' None), db_example None)
   \<and> challenges (db_example None) = [challenge_example None]"
  using VerifyFactor_unverified [of "db_example None"
      "\<lparr>ChallengeID = ''c1'', Code = ''000000''\<rparr>" "challenge_example None"
      deps_example 300 "1000 * Second" user_example factor_example]
    FindChallengeByChallengeID_example [of None]
  by (simp add: challenge_example_def deps_example_def db_example_def Time_After_def
      Time_Add_def Duration_Mul_300 Second_def unauthorizedError_def httpError_def
      StatusUnauthorized_def)

text \<open>
  C1, amended. In \<^verbatim>\<open>VerifyFactor\<close> the TOTP code is validated before the expiry check.
  For every challenge that is found, not yet verified and expired as the handler computes
  it (\<open>now > created_at + expiry_duration\<close>, where \<open>expiry_duration\<close> is the \<^verbatim>\<open>int64\<close>
  product of one second and the configured number of seconds): when the submitted code
  does not validate, verification fails with Unauthorized and the store is unchanged;
  when the code validates and the challenge is deleted, verification fails with BadRequest
  and the challenge is no longer in the store afterwards; when the code validates and the
  delete fails, verification fails with the internal error "Database error deleting
  challenge" and the store is unchanged. In every case it fails: an expired challenge is
  never verified. For a configured lifetime between -9223372036 and 9223372036 seconds
  the product does not wrap (\<open>Duration_Mul_seconds\<close>) and \<open>expiry_duration\<close> is that
  many seconds.
\<close>

theorem VerifyFactor_on_expired_challenge:
  assumes "FindChallengeByChallengeID db (ChallengeID params) = Inr challenge"
    and "VerifiedAt challenge = None"
    and "Time_After now
           (Time_Add (Challenge_CreatedAt challenge) (Duration_Mul Second expiry))"
  shows "VerifyFactor deps expiry now user factor (Inr params) db =
     (if \<not> Validate deps (Code params) (TOTPSecret factor)
      then (Some (unauthorizedError ''Invalid TOTP code entered''), db)
      else if failing db DestroyChallenge
      then (Some (WithInternalError
                    (internalServerError ''Database error deleting challenge'')
                    (StorageError ''delete from challenges failed'')), db)
      else (Some (badRequestError NoErrorCode
                    (Challenge_ID challenge @
                     '' has expired, please verify against another challenge or create a new challenge.'')),
            db\<lparr>challenges :=
                 filter (\<lambda>c. Challenge_ID c \<noteq> Challenge_ID challenge) (challenges db)\<rparr>))
    \<and> fst (VerifyFactor deps expiry now user factor (Inr params) db) \<noteq> None
    \<and> (Validate deps (Code params) (TOTPSecret factor) \<and> \<not> failing db DestroyChallenge \<longrightarrow>
         FindChallengeByChallengeID
           (snd (VerifyFactor deps expiry now user factor (Inr params) db))
           (Challenge_ID challenge) = Inl (NotFoundError ''Challenge not found''))"
  using assms FindChallengeByChallengeID_available [OF assms(1)]
  by (simp add: VerifyFactor_unverified [OF assms(1,2)] FindChallengeByChallengeID_def
      find_after_Destroy_Challenge)

lemma FindChallengeByChallengeID_delete_fails:
  "FindChallengeByChallengeID db_delete_fails ''c1'' = Inr (challenge_example None)"
  by (simp add: FindChallengeByChallengeID_def db_delete_fails_def db_example_def
      challenge_example_def)

theorem VerifyFactor_on_expired_challenge_witness:
  "FindChallengeByChallengeID (db_example None) ''c1'' = Inr (challenge_example None)
   \<and> VerifiedAt (challenge_example None) = None
   \<and> Time_After (1000 * Second)
       (Time_Add (Challenge_CreatedAt (challenge_example None)) (Duration_Mul Second 300))
   \<and> VerifyFactor deps_example 300 (1000 * Second) user_example factor_example
         (Inr \<lparr>ChallengeID = ''c1'', Code = ''123456''\<rparr>) (db_example None) =
       (Some (badRequestError NoErrorCode
                (''c1'' @
                 '' has expired, please verify against another challenge or create a new challenge.'')),
        (db_example None)\<lparr>challenges := []\<rparr>)
   \<and> VerifyFactor deps_example 300 (1000 * Second) user_example factor_example
         (Inr \<lparr>ChallengeID = ''c1'', Code = ''123456''\<rparr>) db_delete_fails =
       (Some (HTTPError 500 NoErrorCode ''Database error deleting challenge''
                (Some (StorageError ''delete from challenges failed''))),
        db_delete_fails)"
  using VerifyFactor_on_expired_challenge [of "db_example None"
      "\<lparr>ChallengeID = ''c1'', Code = ''123456''\<rparr>" "challenge_example None"
      "1000 * Second" 300 deps_example user_example factor_example]
    VerifyFactor_on_expired_challenge [of db_delete_fails
      "\<lparr>ChallengeID = ''c1'', Code = ''123456''\<rparr>" "challenge_example None"
      "1000 * Second" 300 deps_example user_example factor_example]
    FindChallengeByChallengeID_example [of None] FindChallengeByChallengeID_delete_fails
  by (simp add: challenge_example_def deps_example_def db_example_def db_delete_fails_def
      Time_After_def Time_Add_def Duration_Mul_300 Second_def internalServerError_def
      httpError_def StatusInternalServerError_def)

text \<open>
  C9. For a verified factor and a submitted code that does not validate against the
  factor's secret, \<^verbatim>\<open>UnenrollFactor\<close> fails with Unauthorized and returns the store as
  it was: the factor is still there and no session is removed.
\<close>

theorem UnenrollFactor_invalid_code:
  assumes "Status factor = FactorVerifiedState"
    and "\<not> Validate deps (Unenroll_Code params) (TOTPSecret factor)"
  shows "UnenrollFactor deps user factor session (Inr params) db =
           (Some (unauthorizedError ''Invalid code entered''), db)
    \<and> HTTPStatus (unauthorizedError ''Invalid code entered'') = StatusUnauthorized
    \<and> factors (snd (UnenrollFactor deps user factor session (Inr params) db)) = factors db
    \<and> sessions (snd (UnenrollFactor deps user factor session (Inr params) db)) = sessions db"
  using assms by (simp add: UnenrollFactor_def unauthorizedError_def httpError_def)

theorem UnenrollFactor_invalid_code_witness:
  "Status factor_example = FactorVerifiedState
   \<and> \<not> Validate deps_example ''000000'' (TOTPSecret factor_example)
   \<and> UnenrollFactor deps_example user_example factor_example session_example
         (Inr \<lparr>Unenroll_Code = ''000000''\<rparr>) (db_example None) =
       (Some (unauthorizedError ''Invalid code entered''), db_example None)
   \<and> factors (db_example None) = [factor_example]
   \<and> sessions (db_example None) = [session_example]"
  using UnenrollFactor_invalid_code [of factor_example deps_example
      "\<lparr>Unenroll_Code = ''000000''\<rparr>" user_example session_example "db_example None"]
  by (simp add: factor_example_def deps_example_def FactorVerifiedState_def db_example_def)
section \<open>Hooks: the error object of an output\<close>


lemma invokePostgresHook_MFA:
  assumes "runPostgresHook env conn (MFAVerificationAttempt_HookName config) (MFAInput i)
             (Unmarshal_MFA env) out = Return ((response, None), hookOutput)"
  shows "invokePostgresHook env config conn (MFAInput i) (MFAOutput out) =
     (if Message (MFA_HookError hookOutput) \<noteq> []
      then Return (Some (hookError_failure (MFA_HookError hookOutput)), MFAOutput hookOutput)
      else Return (None, MFAOutput hookOutput))"
  using assms by (simp add: invokePostgresHook_def MFAVerificationAttemptOutput_IsError_def)

lemma invokePostgresHook_Password:
  assumes "runPostgresHook env conn (PasswordVerificationAttempt_HookName config)
             (PasswordInput i) (Unmarshal_Password env) out =
           Return ((response, None), hookOutput)"
  shows "invokePostgresHook env config conn (PasswordInput i) (PasswordOutput out) =
     (if Message (Password_HookError hookOutput) \<noteq> []
      then Return (Some (hookError_failure (Password_HookError hookOutput)),
                   PasswordOutput hookOutput)
      else Return (None, PasswordOutput hookOutput))"
  using assms
  by (simp add: invokePostgresHook_def PasswordVerificationAttemptOutput_IsError_def)

lemma invokePostgresHook_AccessToken:
  assumes "runPostgresHook env conn (CustomAccessToken_HookName config) (AccessTokenInput i)
             (Unmarshal_AccessToken env) out = Return ((response, None), hookOutput)"
  shows "invokePostgresHook env config conn (AccessTokenInput i) (AccessTokenOutput out) =
     (if Message (CustomAccessToken_HookError hookOutput) \<noteq> []
      then Return (Some (hookError_failure (CustomAccessToken_HookError hookOutput)),
                   AccessTokenOutput hookOutput)
      else case validateTokenClaims env (Claims hookOutput) of
             Some err \<Rightarrow>
               Return (Some (HTTPError
                         (if HTTPCode (CustomAccessToken_HookError hookOutput) = 0 then 500
                          else HTTPCode (CustomAccessToken_HookError hookOutput))
                         NoErrorCode (Error err) None),
                       AccessTokenOutput hookOutput)
           | None \<Rightarrow> Return (None, AccessTokenOutput hookOutput))"
  using assms
  by (simp add: invokePostgresHook_def CustomAccessTokenOutput_IsError_def Let_def
      StatusInternalServerError_def split: option.splits)

lemma runPostgresHook_example:
  "runPostgresHook (pg_env_example code msg) conn name input
     (Unmarshal_MFA (pg_env_example code msg)) mfa_output_zero =
   Return ((Some ''{}'', None),
           mfa_output_zero\<lparr>MFA_HookError := \<lparr>HTTPCode = code, Message = msg\<rparr>\<rparr>)"
  by (simp add: runPostgresHook_def invokeHookFunc_def pg_env_example_def)





text \<open>
  C10. For each of the three outputs \<^verbatim>\<open>IsError\<close> holds exactly when the message of the
  error object is not empty. So an output whose error object has an empty message is not
  an error whatever its HTTP code is: after a successful call \<^verbatim>\<open>invokePostgresHook\<close>
  returns no error for the MFA hook and the password hook, and for the access-token hook
  it goes on to the check of the claims, whose verdict alone decides.
\<close>

theorem IsError_iff_message_nonempty:
  "MFAVerificationAttemptOutput_IsError mf = (Message (MFA_HookError mf) \<noteq> [])
   \<and> PasswordVerificationAttemptOutput_IsError p = (Message (Password_HookError p) \<noteq> [])
   \<and> CustomAccessTokenOutput_IsError ca = (Message (CustomAccessToken_HookError ca) \<noteq> [])
   \<and> (runPostgresHook env conn (MFAVerificationAttempt_HookName config) (MFAInput mi)
        (Unmarshal_MFA env) mo = Return ((response, None), mf)
      \<and> Message (MFA_HookError mf) = [] \<longrightarrow>
      invokePostgresHook env config conn (MFAInput mi) (MFAOutput mo) =
        Return (None, MFAOutput mf))
   \<and> (runPostgresHook env conn (PasswordVerificationAttempt_HookName config) (PasswordInput pi)
        (Unmarshal_Password env) po = Return ((response, None), p)
      \<and> Message (Password_HookError p) = [] \<longrightarrow>
      invokePostgresHook env config conn (PasswordInput pi) (PasswordOutput po) =
        Return (None, PasswordOutput p))
   \<and> (runPostgresHook env conn (CustomAccessToken_HookName config) (AccessTokenInput ci)
        (Unmarshal_AccessToken env) co = Return ((response, None), ca)
      \<and> Message (CustomAccessToken_HookError ca) = [] \<longrightarrow>
      invokePostgresHook env config conn (AccessTokenInput ci) (AccessTokenOutput co) =
        (case validateTokenClaims env (Claims ca) of
           Some err \<Rightarrow>
             Return (Some (HTTPError
                       (if HTTPCode (CustomAccessToken_HookError ca) = 0 then 500
                        else HTTPCode (CustomAccessToken_HookError ca))
                       NoErrorCode (Error err) None),
                     AccessTokenOutput ca)
         | None \<Rightarrow> Return (None, AccessTokenOutput ca)))"
  by (simp add: invokePostgresHook_MFA invokePostgresHook_Password
      invokePostgresHook_AccessToken
      MFAVerificationAttemptOutput_IsError_def PasswordVerificationAttemptOutput_IsError_def
      CustomAccessTokenOutput_IsError_def)

theorem IsError_iff_message_nonempty_witness:
  "HTTPCode (MFA_HookError
      (mfa_output_zero\<lparr>MFA_HookError := \<lparr>HTTPCode = 403, Message = []\<rparr>\<rparr>)) = 403
   \<and> \<not> MFAVerificationAttemptOutput_IsError
        (mfa_output_zero\<lparr>MFA_HookError := \<lparr>HTTPCode = 403, Message = []\<rparr>\<rparr>)
   \<and> invokePostgresHook (pg_env_example 403 []) hook_config_example None
         (MFAInput mfa_input_example) (MFAOutput mfa_output_zero) =
       Return (None, MFAOutput (mfa_output_zero
                 \<lparr>MFA_HookError := \<lparr>HTTPCode = 403, Message = []\<rparr>\<rparr>))"
  using IsError_iff_message_nonempty [where env = "pg_env_example 403 []"
      and conn = None and config = hook_config_example and mi = mfa_input_example
      and mo = mfa_output_zero and response = "Some ''{}''"
      and mf = "mfa_output_zero\<lparr>MFA_HookError := \<lparr>HTTPCode = 403, Message = []\<rparr>\<rparr>"]
  by (simp add: runPostgresHook_example)

end
